theory Spec2Isabelle
  imports Complex_Main "HOL-Library.AList" "HOL-Library.Sublist"
begin

section \<open>Exceptions (core/exceptions.py)\<close>

text \<open>
  Every raise of the package is a value of \<open>error\<close>, named by the class that is raised.
  The classes of \<^verbatim>\<open>core/exceptions.py\<close> come first, then the Python built-ins that
  \<^verbatim>\<open>str.format\<close> and attribute access can raise.  \<open>Unmodelled\<close> is not a Python exception:
  it marks a run that leaves the fragment of \<^verbatim>\<open>str.format\<close> embedded below (a replacement
  field with a conversion, a format specification, or attribute or index access).
\<close>

datatype error =
    Exception
  | PromptManagerError | ConfigurationError | ValidationError
  | SourceError | SourceNotFoundError | SourceConnectionError
  | PromptError | PromptNotFoundError | PromptRetrievalError
  | RegistryError | PromptAlreadyRegisteredError | PromptNotRegisteredError
  | OpenAIError | OpenAIConfigError | OpenAIRateLimitError | OpenAITimeoutError
  | LocalSourceError | FileNotFoundError | FileReadError
  | KeyError | ValueError | IndexError | AttributeError
  | Unmodelled

text \<open>The direct base classes, as the \<^verbatim>\<open>class\<close> statements list them.\<close>

fun bases :: "error \<Rightarrow> error list" where
  "bases Exception = []"
| "bases PromptManagerError = [Exception]"
| "bases ConfigurationError = [PromptManagerError]"
| "bases ValidationError = [PromptManagerError]"
| "bases SourceError = [PromptManagerError]"
| "bases SourceNotFoundError = [SourceError]"
| "bases SourceConnectionError = [SourceError]"
| "bases PromptError = [PromptManagerError]"
| "bases PromptNotFoundError = [PromptError]"
| "bases PromptRetrievalError = [PromptError]"
| "bases RegistryError = [PromptManagerError]"
| "bases PromptAlreadyRegisteredError = [RegistryError]"
| "bases PromptNotRegisteredError = [RegistryError]"
| "bases OpenAIError = [SourceError]"
| "bases OpenAIConfigError = [OpenAIError, ConfigurationError]"
| "bases OpenAIRateLimitError = [OpenAIError]"
| "bases OpenAITimeoutError = [OpenAIError]"
| "bases LocalSourceError = [SourceError]"
| "bases FileNotFoundError = [LocalSourceError]"
| "bases FileReadError = [LocalSourceError]"
| "bases KeyError = [Exception]"
| "bases ValueError = [Exception]"
| "bases IndexError = [Exception]"
| "bases AttributeError = [Exception]"
| "bases Unmodelled = []"

text \<open>
  \<open>isinstance e c\<close>: an exception of class \<open>e\<close> is caught by \<^verbatim>\<open>except c\<close>.  The hierarchy
  is four levels deep, so four steps along \<open>bases\<close> reach every ancestor.
\<close>

fun subclass_upto :: "nat \<Rightarrow> error \<Rightarrow> error \<Rightarrow> bool" where
  "subclass_upto 0 e c = (e = c)"
| "subclass_upto (Suc n) e c = (e = c \<or> list_ex (\<lambda>b. subclass_upto n b c) (bases e))"

definition isinstance :: "error \<Rightarrow> error \<Rightarrow> bool" where
  "isinstance e c = subclass_upto 4 e c"

section \<open>Strings\<close>

text \<open>
  \<^verbatim>\<open>str.lower\<close> on the ASCII letters; every other character is left as it is.
  Python's \<^verbatim>\<open>a in b\<close> on strings is \<^const>\<open>sublist\<close> (a contiguous run).
\<close>

definition lower_char :: "char \<Rightarrow> char" where
  "lower_char c =
     (case map_of (zip ''ABCDEFGHIJKLMNOPQRSTUVWXYZ'' ''abcdefghijklmnopqrstuvwxyz'') c of
        Some d \<Rightarrow> d
      | None \<Rightarrow> c)"

definition lower :: "string \<Rightarrow> string" where
  "lower s = map lower_char s"

section \<open>Configuration (core/config.py)\<close>

datatype SourceType = OPENAI | LOCAL

text \<open>\<^verbatim>\<open>SourceType.from_string\<close>: case-insensitive, \<^verbatim>\<open>ConfigurationError\<close> on any other value.\<close>

definition from_string :: "string \<Rightarrow> error + SourceType" where
  "from_string v =
     (if lower v = ''openai'' then Inr OPENAI
      else if lower v = ''local'' then Inr LOCAL
      else Inl ConfigurationError)"

text \<open>
  \<^verbatim>\<open>PromptConfig.source_config\<close> is a dictionary; the package writes the keys
  \<^verbatim>\<open>prompt_id\<close>, \<^verbatim>\<open>version\<close> and \<^verbatim>\<open>path\<close> into it and its adapters read no other key, so
  it is a record of these three optional entries.
\<close>

record SourceConfig =
  prompt_id :: "string option"
  version :: "string option"
  path :: "string option"

definition empty_source_config :: SourceConfig where
  "empty_source_config = \<lparr>prompt_id = None, version = None, path = None\<rparr>"

record PromptConfig =
  name :: string
  source :: SourceType
  source_config :: SourceConfig
  cache_ttl :: "int option"

text \<open>
  \<^verbatim>\<open>PromptManagerConfig\<close>: the settings the retrieval path reads.  Its field \<^verbatim>\<open>cache_ttl\<close>
  is \<open>default_cache_ttl\<close> here, as a record cannot share a field name with \<open>PromptConfig\<close>.
\<close>

record PromptManagerConfig =
  cache_enabled :: bool
  default_cache_ttl :: int
  openai_api_key :: "string option"
  openai_timeout :: int
  openai_max_retries :: int
  prompts_dir :: "string option"

section \<open>Registry (core/registry.py)\<close>

text \<open>
  \<^verbatim>\<open>_prompts\<close> is a Python dictionary: an association list with distinct keys, in insertion
  order (\<^const>\<open>AList.update\<close> keeps the place of a key that is there and appends a new one,
  as assignment to a dictionary does).
\<close>

record PromptRegistry =
  prompts :: "(string \<times> PromptConfig) list"
  sources_in_use :: "SourceType set"

definition new_registry :: PromptRegistry where
  "new_registry = \<lparr>prompts = [], sources_in_use = {}\<rparr>"

definition exists :: "PromptRegistry \<Rightarrow> string \<Rightarrow> bool" where
  "exists reg n = (n \<in> set (map fst (prompts reg)))"

definition register :: "PromptRegistry \<Rightarrow> PromptConfig \<Rightarrow> bool \<Rightarrow> error + PromptRegistry" where
  "register reg pc overwrite =
     (if exists reg (name pc) \<and> \<not> overwrite then Inl PromptAlreadyRegisteredError
      else Inr (reg\<lparr>prompts := AList.update (name pc) pc (prompts reg),
                    sources_in_use := insert (source pc) (sources_in_use reg)\<rparr>))"

text \<open>
  \<^verbatim>\<open>register_from_dict\<close> builds the \<^verbatim>\<open>PromptConfig\<close> (the validator of \<^verbatim>\<open>source\<close> runs
  \<^verbatim>\<open>from_string\<close>) and registers it, both inside one \<^verbatim>\<open>try\<close> whose handler
  \<^verbatim>\<open>except Exception\<close> raises \<^verbatim>\<open>ConfigurationError\<close>.  (\<^verbatim>\<open>PromptConfig\<close> is the pydantic
  model: without pydantic its constructor takes no arguments.)
\<close>

definition register_from_dict ::
  "PromptRegistry \<Rightarrow> string \<Rightarrow> string \<Rightarrow> SourceConfig option \<Rightarrow> int option \<Rightarrow> bool
     \<Rightarrow> error + PromptRegistry" where
  "register_from_dict reg n src sc ttl overwrite =
     (case from_string src of
        Inl e \<Rightarrow> Inl ConfigurationError
      | Inr st \<Rightarrow>
          (case register reg
                  \<lparr>name = n, source = st,
                   source_config = (case sc of Some c \<Rightarrow> c | None \<Rightarrow> empty_source_config),
                   cache_ttl = ttl\<rparr> overwrite of
             Inl e \<Rightarrow> Inl ConfigurationError
           | Inr reg' \<Rightarrow> Inr reg'))"

definition get :: "PromptRegistry \<Rightarrow> string \<Rightarrow> error + PromptConfig" where
  "get reg n =
     (case map_of (prompts reg) n of
        None \<Rightarrow> Inl PromptNotRegisteredError
      | Some pc \<Rightarrow> Inr pc)"

definition list_prompts :: "PromptRegistry \<Rightarrow> string list" where
  "list_prompts reg = map fst (prompts reg)"

definition update_sources_in_use :: "PromptRegistry \<Rightarrow> PromptRegistry" where
  "update_sources_in_use reg = reg\<lparr>sources_in_use := set (map (source \<circ> snd) (prompts reg))\<rparr>"

definition remove :: "PromptRegistry \<Rightarrow> string \<Rightarrow> error + PromptRegistry" where
  "remove reg n =
     (if \<not> exists reg n then Inl PromptNotRegisteredError
      else Inr (update_sources_in_use (reg\<lparr>prompts := AList.delete n (prompts reg)\<rparr>)))"

definition clear :: "PromptRegistry \<Rightarrow> PromptRegistry" where
  "clear reg = reg\<lparr>prompts := [], sources_in_use := {}\<rparr>"

definition get_sources_in_use :: "PromptRegistry \<Rightarrow> SourceType set" where
  "get_sources_in_use reg = sources_in_use reg"

text \<open>The variants that a registered configuration uses: what \<^verbatim>\<open>_update_sources_in_use\<close> computes.\<close>

definition live_sources :: "PromptRegistry \<Rightarrow> SourceType set" where
  "live_sources reg = set (map (source \<circ> snd) (prompts reg))"

text \<open>
  A sequence of registry operations.  An operation that raises leaves the registry as it
  was (each raise of the registry comes before its first assignment), and the sequence goes
  on with the next operation, as a caller that catches the exception would.
\<close>

datatype registry_op = Register PromptConfig bool | Remove string | Clear

fun run_op :: "PromptRegistry \<Rightarrow> registry_op \<Rightarrow> PromptRegistry" where
  "run_op reg (Register pc overwrite) =
     (case register reg pc overwrite of Inl e \<Rightarrow> reg | Inr reg' \<Rightarrow> reg')"
| "run_op reg (Remove n) = (case remove reg n of Inl e \<Rightarrow> reg | Inr reg' \<Rightarrow> reg')"
| "run_op reg Clear = clear reg"

definition run_ops :: "registry_op list \<Rightarrow> PromptRegistry" where
  "run_ops ops = foldl run_op new_registry ops"

section \<open>Variable substitution (\<^verbatim>\<open>str.format\<close> and \<^verbatim>\<open>_apply_variables\<close>)\<close>

text \<open>
  \<^verbatim>\<open>content.format(**variables)\<close> is a call of the Python library.  It is embedded as the
  scanner CPython runs: literal text up to a brace, \<^verbatim>\<open>{{\<close> and \<^verbatim>\<open>}}\<close> as escapes, a lone
  \<^verbatim>\<open>}\<close> or an unclosed \<^verbatim>\<open>{\<close> as \<^verbatim>\<open>ValueError\<close>, and a field name up to its closing
  brace.  The keyword arguments are an association list; their values are the strings that
  \<^verbatim>\<open>str\<close> gives for them.  A field name that is empty or all digits is positional, and no
  positional argument is passed, so it raises \<^verbatim>\<open>IndexError\<close> (an index of ten digits or
  more may overflow first and is left out of the model).  Any other name is looked up
  among the keywords and raises \<^verbatim>\<open>KeyError\<close> when it is not there.  The scan is left to
  right, so the first failure is the one raised.
\<close>

definition is_digit :: "char \<Rightarrow> bool" where
  "is_digit c = (c \<in> set ''0123456789'')"

definition get_value :: "(string \<times> string) list \<Rightarrow> string \<Rightarrow> error + string" where
  "get_value kwargs field_name =
     (if list_all is_digit field_name then
        (if length field_name \<le> 9 then Inl IndexError else Inl Unmodelled)
      else (case map_of kwargs field_name of
              None \<Rightarrow> Inl KeyError
            | Some v \<Rightarrow> Inr v))"

datatype scan_mode = In_literal | In_field string

fun format_scan :: "(string \<times> string) list \<Rightarrow> scan_mode \<Rightarrow> string \<Rightarrow> error + string" where
  "format_scan kwargs In_literal [] = Inr []"
| "format_scan kwargs In_literal (c # cs) =
     (if c = CHR ''{'' \<or> c = CHR ''}'' then
        (case cs of
           [] \<Rightarrow> Inl ValueError
         | d # ds \<Rightarrow>
             if d = c then map_sum id (Cons c) (format_scan kwargs In_literal ds)
             else if c = CHR ''}'' then Inl ValueError
             else format_scan kwargs (In_field []) cs)
      else map_sum id (Cons c) (format_scan kwargs In_literal cs))"
| "format_scan kwargs (In_field nm) [] = Inl ValueError"
| "format_scan kwargs (In_field nm) (c # cs) =
     (if c = CHR ''{'' then Inl ValueError
      else if c \<in> set ''!:.['' then Inl Unmodelled
      else if c = CHR ''}'' then
        (case get_value kwargs nm of
           Inl e \<Rightarrow> Inl e
         | Inr v \<Rightarrow> map_sum id (append v) (format_scan kwargs In_literal cs))
      else format_scan kwargs (In_field (nm @ [c])) cs)"

definition format :: "string \<Rightarrow> (string \<times> string) list \<Rightarrow> error + string" where
  "format content kwargs = format_scan kwargs In_literal content"

text \<open>
  \<^verbatim>\<open>PromptManager._apply_variables\<close>.  \<^verbatim>\<open>not variables\<close> holds for \<^verbatim>\<open>None\<close> and for the
  empty dictionary; only \<^verbatim>\<open>KeyError\<close> is caught.  The content is optional because the
  OpenAI adapter can hand \<^verbatim>\<open>None\<close> to the manager (see \<open>retry\<close> below); \<^verbatim>\<open>None.format\<close>
  raises \<^verbatim>\<open>AttributeError\<close>.
\<close>

definition apply_variables ::
  "string option \<Rightarrow> (string \<times> string) list option \<Rightarrow> error + string option" where
  "apply_variables content variables =
     (case variables of
        None \<Rightarrow> Inr content
      | Some kwargs \<Rightarrow>
          if kwargs = [] then Inr content
          else (case content of
                  None \<Rightarrow> Inl AttributeError
                | Some c \<Rightarrow>
                    (case format c kwargs of
                       Inl e \<Rightarrow> if e = KeyError then Inr (Some c) else Inl e
                     | Inr s \<Rightarrow> Inr (Some s))))"








section \<open>The world outside the process\<close>

text \<open>
  What the package reads from outside and what it does to the outside, as one record that
  is passed through every call:
  \<^item> \<open>now\<close>: the reading of \<^verbatim>\<open>time.time()\<close>, an exact real number (the rounding of
    floating point is not part of the model); \<^verbatim>\<open>time.sleep\<close> moves it forward;
  \<^item> \<open>HAS_OPENAI\<close>: the \<^verbatim>\<open>openai\<close> library can be imported; \<open>client_error\<close>: the
    constructor \<^verbatim>\<open>OpenAI(api_key=...)\<close> raises;
  \<^item> \<open>responses_create k id version\<close>: what the \<open>k\<close>-th request of the process gives,
    \<^verbatim>\<open>responses.create\<close> followed by \<^verbatim>\<open>_extract_prompt_text\<close>: the call raises with the
    message \<^verbatim>\<open>str(e)\<close>, or a text is extracted, or the extraction fails with a message;
    \<open>api_calls\<close> counts the requests made so far and \<open>sleeps\<close> lists the arguments of
    \<^verbatim>\<open>time.sleep\<close> in order;
  \<^item> the file system, as far as the local adapter looks at it: \<open>resolve_dir\<close>
    (\<^verbatim>\<open>Path(base_dir).expanduser().resolve()\<close>), \<open>path_exists\<close>, \<open>is_directory\<close>,
    \<open>resolve_file_path\<close> (the path \<^verbatim>\<open>_resolve_file_path\<close> returns for a base directory, an
    identifier, a version and a path override) and \<open>read_file\<close> (what \<^verbatim>\<open>_read_file\<close> does
    on a path: the builtin \<^verbatim>\<open>FileNotFoundError\<close>, \<^verbatim>\<open>FileReadError\<close>, or the text it returns).
\<close>

datatype api_outcome = Raises string | Extracts string | Unparsable string

datatype read_outcome = No_such_file | Read_fails | File_text string

record world =
  now :: real
  HAS_OPENAI :: bool
  client_error :: bool
  responses_create :: "nat \<Rightarrow> string \<Rightarrow> string option \<Rightarrow> api_outcome"
  api_calls :: nat
  sleeps :: "nat list"
  resolve_dir :: "string \<Rightarrow> string"
  path_exists :: "string \<Rightarrow> bool"
  is_directory :: "string \<Rightarrow> bool"
  resolve_file_path :: "string option \<Rightarrow> string \<Rightarrow> string option \<Rightarrow> string option \<Rightarrow> string"
  read_file :: "string \<Rightarrow> read_outcome"

definition sleep :: "nat \<Rightarrow> world \<Rightarrow> world" where
  "sleep n w = w\<lparr>sleeps := sleeps w @ [n], now := now w + real n\<rparr>"

text \<open>
  Truthiness of an optional string: \<^verbatim>\<open>if version:\<close> fails for \<^verbatim>\<open>None\<close> and for the empty
  string; \<open>or_latest\<close> is \<^verbatim>\<open>version or 'latest'\<close>.
\<close>

definition nonempty :: "string option \<Rightarrow> string option" where
  "nonempty v = (case v of None \<Rightarrow> None | Some s \<Rightarrow> if s = [] then None else Some s)"

definition or_latest :: "string option \<Rightarrow> string" where
  "or_latest v = (case nonempty v of None \<Rightarrow> ''latest'' | Some s \<Rightarrow> s)"

section \<open>OpenAI adapter (sources/openai.py)\<close>

text \<open>
  The adapter's configuration entries \<^verbatim>\<open>api_key\<close>, \<^verbatim>\<open>timeout\<close> and \<^verbatim>\<open>max_retries\<close> (absent:
  \<^verbatim>\<open>config.get("max_retries", 3)\<close>), \<^verbatim>\<open>_initialized\<close> and the adapter's own \<^verbatim>\<open>_cache\<close>.
\<close>

record OpenAIPromptSource =
  api_key :: "string option"
  timeout :: int
  max_retries :: "int option"
  openai_initialized :: bool
  openai_cache :: "(string \<times> string) list"

definition openai_initialize :: "OpenAIPromptSource \<Rightarrow> world \<Rightarrow> error + unit" where
  "openai_initialize src w =
     (if \<not> HAS_OPENAI w then Inl ConfigurationError
      else if nonempty (api_key src) = None then Inl OpenAIConfigError
      else if client_error w then Inl SourceConnectionError
      else Inr ())"

definition openai_ensure_initialized ::
  "OpenAIPromptSource \<Rightarrow> world \<Rightarrow> error + OpenAIPromptSource" where
  "openai_ensure_initialized src w =
     (if openai_initialized src then Inr src
      else (case openai_initialize src w of
              Inl e \<Rightarrow> Inl e
            | Inr u \<Rightarrow> Inr (src\<lparr>openai_initialized := True\<rparr>)))"

text \<open>
  The handler \<^verbatim>\<open>except Exception as e\<close> of the retry loop sorts a failure by its lowercased
  message, in this order.
\<close>

datatype failure_class = Not_found | Rate_limit | Timeout | Generic

definition classify :: "string \<Rightarrow> failure_class" where
  "classify message =
     (let error_str = lower message in
        if sublist ''not found'' error_str \<or> sublist ''404'' error_str then Not_found
        else if sublist ''rate limit'' error_str \<or> sublist ''too many requests'' error_str
          then Rate_limit
        else if sublist ''timeout'' error_str then Timeout
        else Generic)"

text \<open>
  One pass through the \<^verbatim>\<open>try\<close> block: \<open>Inl\<close> is the message of the exception the handler
  catches, \<open>Inr\<close> the text that is returned.  An empty text raises \<^verbatim>\<open>PromptNotFoundError\<close>
  inside the \<^verbatim>\<open>try\<close>, and a failed extraction raises \<^verbatim>\<open>PromptRetrievalError\<close> there; both
  are caught by the same handler and sorted by their messages.
\<close>

definition quoted :: "string \<Rightarrow> string" where
  "quoted s = CHR 0x27 # s @ [CHR 0x27]"

definition try_block :: "string \<Rightarrow> api_outcome \<Rightarrow> string + string" where
  "try_block pid outcome =
     (case outcome of
        Raises message \<Rightarrow> Inl message
      | Unparsable message \<Rightarrow>
          Inl (''Failed to retrieve prompt '' @ quoted ''unknown'' @ '' from source ''
               @ quoted ''openai'' @ '': Failed to parse OpenAI response: '' @ message)
      | Extracts prompt_text \<Rightarrow>
          if prompt_text = [] then
            Inl (''Prompt '' @ quoted pid @ '' not found in source '' @ quoted ''openai''
                 @ '': Prompt retrieved but content is empty'')
          else Inr prompt_text)"

text \<open>
  \<^verbatim>\<open>for attempt in range(max_retries)\<close>: \<open>retry remaining attempt\<close> runs the loop from the
  given attempt with \<open>remaining\<close> iterations to go; it starts as \<open>retry (nat max_retries) 0\<close>.
  Every request takes the next outcome of the world.  When no iteration is left the loop
  ends and the function falls off its end: it returns \<^verbatim>\<open>None\<close>.
\<close>

fun retry ::
  "nat \<Rightarrow> nat \<Rightarrow> int \<Rightarrow> string \<Rightarrow> string option \<Rightarrow> OpenAIPromptSource \<Rightarrow> world
     \<Rightarrow> (error + string option) \<times> OpenAIPromptSource \<times> world" where
  "retry 0 attempt mr pid ver src w = (Inr None, src, w)"
| "retry (Suc remaining) attempt mr pid ver src w =
     (let outcome = responses_create w (api_calls w) pid (nonempty ver);
          w1 = w\<lparr>api_calls := Suc (api_calls w)\<rparr>
      in case try_block pid outcome of
           Inr prompt_text \<Rightarrow>
             (Inr (Some prompt_text),
              src\<lparr>openai_cache :=
                    AList.update (pid @ '':'' @ or_latest ver) prompt_text (openai_cache src)\<rparr>,
              w1)
         | Inl message \<Rightarrow>
             (case classify message of
                Not_found \<Rightarrow> (Inl PromptNotFoundError, src, w1)
              | Rate_limit \<Rightarrow>
                  if int attempt < mr - 1 then retry remaining (Suc attempt) mr pid ver src (sleep (2 ^ attempt) w1)
                  else (Inl OpenAIRateLimitError, src, w1)
              | Timeout \<Rightarrow>
                  if int attempt < mr - 1 then retry remaining (Suc attempt) mr pid ver src w1
                  else (Inl OpenAITimeoutError, src, w1)
              | Generic \<Rightarrow>
                  if int attempt < mr - 1 then retry remaining (Suc attempt) mr pid ver src (sleep 1 w1)
                  else (Inl PromptRetrievalError, src, w1)))"

text \<open>The class of the caught failure of one pass, \<open>None\<close> when the pass returns a text.\<close>

definition failure :: "string \<Rightarrow> api_outcome \<Rightarrow> failure_class option" where
  "failure pid outcome =
     (case try_block pid outcome of
        Inl message \<Rightarrow> Some (classify message)
      | Inr prompt_text \<Rightarrow> None)"

definition configured_max_retries :: "OpenAIPromptSource \<Rightarrow> int" where
  "configured_max_retries src = (case max_retries src of None \<Rightarrow> 3 | Some n \<Rightarrow> n)"

definition openai_get_prompt ::
  "OpenAIPromptSource \<Rightarrow> world \<Rightarrow> string \<Rightarrow> string option
     \<Rightarrow> (error + string option) \<times> OpenAIPromptSource \<times> world" where
  "openai_get_prompt src w pid ver =
     (case openai_ensure_initialized src w of
        Inl e \<Rightarrow> (Inl e, src, w)
      | Inr src1 \<Rightarrow>
          (case map_of (openai_cache src1) (pid @ '':'' @ or_latest ver) of
             Some text \<Rightarrow> (Inr (Some text), src1, w)
           | None \<Rightarrow>
               retry (nat (configured_max_retries src1)) 0 (configured_max_retries src1)
                 pid ver src1 w))"

section \<open>Local file adapter (sources/local.py)\<close>

text \<open>
  The manager builds the adapter with \<^verbatim>\<open>auto_reload\<close> set to \<^verbatim>\<open>False\<close>, and the adapter is
  embedded with that setting: the branches on \<^verbatim>\<open>_auto_reload\<close> are not taken.
\<close>

record LocalFileSource =
  base_dir :: "string option"
  local_initialized :: bool
  resolved_base_dir :: "string option"
  local_cache :: "(string \<times> string) list"

definition local_initialize :: "LocalFileSource \<Rightarrow> world \<Rightarrow> (error + unit) \<times> LocalFileSource" where
  "local_initialize src w =
     (case nonempty (base_dir src) of
        None \<Rightarrow> (Inr (), src)
      | Some d \<Rightarrow>
          (let src1 = src\<lparr>resolved_base_dir := Some (resolve_dir w d)\<rparr>
           in if \<not> path_exists w (resolve_dir w d) then (Inl ConfigurationError, src1)
              else if \<not> is_directory w (resolve_dir w d) then (Inl ConfigurationError, src1)
              else (Inr (), src1)))"

definition local_ensure_initialized ::
  "LocalFileSource \<Rightarrow> world \<Rightarrow> (error + unit) \<times> LocalFileSource" where
  "local_ensure_initialized src w =
     (if local_initialized src then (Inr (), src)
      else (case local_initialize src w of
              (Inl e, src1) \<Rightarrow> (Inl e, src1)
            | (Inr u, src1) \<Rightarrow> (Inr (), src1\<lparr>local_initialized := True\<rparr>)))"

definition substitute_variables :: "string \<Rightarrow> (string \<times> string) list \<Rightarrow> error + string" where
  "substitute_variables content variables =
     (case format content variables of
        Inl e \<Rightarrow> if e = KeyError then Inr content else Inl e
      | Inr s \<Rightarrow> Inr s)"

text \<open>
  \<^verbatim>\<open>LocalFileSource.get_prompt\<close>: the adapter's cache is keyed by the resolved path.  A text
  that is read goes through \<^verbatim>\<open>_substitute_variables\<close> when variables are passed, and the
  result of that is what is stored and returned.  Inside the \<^verbatim>\<open>try\<close>, the builtin
  \<^verbatim>\<open>FileNotFoundError\<close> becomes \<^verbatim>\<open>PromptNotFoundError\<close> and every other exception
  \<^verbatim>\<open>PromptRetrievalError\<close>.
\<close>

definition local_get_prompt ::
  "LocalFileSource \<Rightarrow> world \<Rightarrow> string \<Rightarrow> string option \<Rightarrow> string option
     \<Rightarrow> (string \<times> string) list option \<Rightarrow> (error + string) \<times> LocalFileSource" where
  "local_get_prompt src w pid ver override_path variables =
     (case local_ensure_initialized src w of
        (Inl e, src1) \<Rightarrow> (Inl e, src1)
      | (Inr u, src1) \<Rightarrow>
          (let file_path = resolve_file_path w (resolved_base_dir src1) pid ver override_path
           in case map_of (local_cache src1) file_path of
                Some text \<Rightarrow> (Inr text, src1)
              | None \<Rightarrow>
                  (case read_file w file_path of
                     No_such_file \<Rightarrow> (Inl PromptNotFoundError, src1)
                   | Read_fails \<Rightarrow> (Inl PromptRetrievalError, src1)
                   | File_text content \<Rightarrow>
                       (case (case variables of
                                None \<Rightarrow> Inr content
                              | Some kwargs \<Rightarrow>
                                  if kwargs = [] then Inr content
                                  else substitute_variables content kwargs) of
                          Inl e \<Rightarrow>
                            (Inl (if e = Unmodelled then Unmodelled else PromptRetrievalError), src1)
                        | Inr text \<Rightarrow>
                            (Inr text,
                             src1\<lparr>local_cache := AList.update file_path text (local_cache src1)\<rparr>)))))"

section \<open>Manager (core/manager.py)\<close>

text \<open>
  \<^verbatim>\<open>_sources\<close> holds one adapter per source type, built on first use from the manager's
  configuration (\<^verbatim>\<open>_get_source_config\<close>).  Both source types have a class in
  \<^verbatim>\<open>SOURCE_CLASSES\<close>, so the \<^verbatim>\<open>SourceNotFoundError\<close> of \<^verbatim>\<open>_get_source\<close> has no input.
  \<^verbatim>\<open>_cache\<close> maps a key to the content and the time it was stored.
\<close>

datatype adapter = OpenAI_source OpenAIPromptSource | Local_source LocalFileSource

record PromptManager =
  config :: PromptManagerConfig
  registry :: PromptRegistry
  sources :: "(SourceType \<times> adapter) list"
  cache :: "(string \<times> string option \<times> real) list"

definition new_manager :: "PromptManagerConfig \<Rightarrow> PromptManager" where
  "new_manager cfg = \<lparr>config = cfg, registry = new_registry, sources = [], cache = []\<rparr>"

definition new_adapter :: "PromptManagerConfig \<Rightarrow> SourceType \<Rightarrow> adapter" where
  "new_adapter cfg st =
     (case st of
        OPENAI \<Rightarrow>
          OpenAI_source \<lparr>api_key = openai_api_key cfg, timeout = openai_timeout cfg,
            max_retries = Some (openai_max_retries cfg), openai_initialized = False,
            openai_cache = []\<rparr>
      | LOCAL \<Rightarrow>
          Local_source \<lparr>base_dir = prompts_dir cfg, local_initialized = False,
            resolved_base_dir = None, local_cache = []\<rparr>)"

definition get_source :: "PromptManager \<Rightarrow> SourceType \<Rightarrow> adapter \<times> PromptManager" where
  "get_source m st =
     (case map_of (sources m) st of
        Some a \<Rightarrow> (a, m)
      | None \<Rightarrow>
          (new_adapter (config m) st,
           m\<lparr>sources := AList.update st (new_adapter (config m) st) (sources m)\<rparr>))"

text \<open>
  \<^verbatim>\<open>source.get_prompt(prompt_id, **retrieval_params)\<close>: the OpenAI adapter takes the
  identifier and the version and ignores the other parameters; the local adapter also reads
  \<^verbatim>\<open>path\<close> and \<^verbatim>\<open>variables\<close>.
\<close>

definition adapter_get_prompt ::
  "adapter \<Rightarrow> world \<Rightarrow> string \<Rightarrow> string option \<Rightarrow> string option
     \<Rightarrow> (string \<times> string) list option \<Rightarrow> (error + string option) \<times> adapter \<times> world" where
  "adapter_get_prompt a w pid ver override_path variables =
     (case a of
        OpenAI_source src \<Rightarrow>
          (case openai_get_prompt src w pid ver of (r, src1, w1) \<Rightarrow> (r, OpenAI_source src1, w1))
      | Local_source src \<Rightarrow>
          (case local_get_prompt src w pid ver override_path variables of
             (r, src1) \<Rightarrow> (map_sum id Some r, Local_source src1, w)))"

definition get_cached :: "PromptManager \<Rightarrow> real \<Rightarrow> string \<Rightarrow> string option \<times> PromptManager" where
  "get_cached m t cache_key =
     (if \<not> cache_enabled (config m) then (None, m)
      else (case map_of (cache m) cache_key of
              None \<Rightarrow> (None, m)
            | Some (content, timestamp) \<Rightarrow>
                if default_cache_ttl (config m) > 0
                   \<and> t - timestamp > real_of_int (default_cache_ttl (config m))
                then (None, m\<lparr>cache := AList.delete cache_key (cache m)\<rparr>)
                else (content, m)))"

definition cache_prompt ::
  "PromptManager \<Rightarrow> real \<Rightarrow> string \<Rightarrow> string option \<Rightarrow> int \<Rightarrow> PromptManager" where
  "cache_prompt m t cache_key content ttl =
     (if \<not> cache_enabled (config m) \<or> ttl = 0 then m
      else m\<lparr>cache := AList.update cache_key (content, t) (cache m)\<rparr>)"

text \<open>\<^verbatim>\<open>prompt_config.cache_ttl or self.config.cache_ttl\<close>: \<^verbatim>\<open>None\<close> and \<^verbatim>\<open>0\<close> are both falsy.\<close>

definition effective_ttl :: "PromptConfig \<Rightarrow> PromptManagerConfig \<Rightarrow> int" where
  "effective_ttl pc cfg =
     (case cache_ttl pc of
        None \<Rightarrow> default_cache_ttl cfg
      | Some ttl \<Rightarrow> if ttl = 0 then default_cache_ttl cfg else ttl)"

text \<open>
  \<^verbatim>\<open>get_prompt\<close>, called with a name, a version, variables and a default and no further
  keyword parameters.  \<open>fetch\<close> is the body of its \<^verbatim>\<open>try\<close>; \<open>get_prompt\<close> adds the handler
  \<^verbatim>\<open>except Exception\<close>, which returns the default (after substitution) when one is given
  and raises again otherwise.  \<^verbatim>\<open>time.time()\<close> is read from the world at the cache lookup
  and again when the entry is stored.  The manager and the world are returned as the call
  leaves them, also when it raises.  A run marked \<open>Unmodelled\<close> stays so: no handler of the
  model catches it.
\<close>

definition fetch ::
  "PromptManager \<Rightarrow> world \<Rightarrow> string \<Rightarrow> string option \<Rightarrow> (string \<times> string) list option
     \<Rightarrow> string option \<Rightarrow> (error + string option) \<times> PromptManager \<times> world" where
  "fetch m w n ver variables dflt =
     (let cache_key = n @ '':'' @ or_latest ver
      in case get_cached m (now w) cache_key of
           (Some cached_content, m1) \<Rightarrow> (apply_variables (Some cached_content) variables, m1, w)
         | (None, m1) \<Rightarrow>
             (case get (registry m1) n of
                Inl e \<Rightarrow>
                  (case dflt of
                     Some d \<Rightarrow> (apply_variables (Some d) variables, m1, w)
                   | None \<Rightarrow> (Inl e, m1, w))
              | Inr prompt_config \<Rightarrow>
                  (case get_source m1 (source prompt_config) of
                     (a, m2) \<Rightarrow>
                       (case adapter_get_prompt a w
                               (case prompt_id (source_config prompt_config) of
                                  Some p \<Rightarrow> p
                                | None \<Rightarrow> n)
                               (case nonempty ver of
                                  Some v \<Rightarrow> Some v
                                | None \<Rightarrow> version (source_config prompt_config))
                               (path (source_config prompt_config))
                               variables of
                          (r, a1, w1) \<Rightarrow>
                            (let m3 = m2\<lparr>sources := AList.update (source prompt_config) a1 (sources m2)\<rparr>
                             in case r of
                                  Inl e \<Rightarrow> (Inl e, m3, w1)
                                | Inr content \<Rightarrow>
                                    (apply_variables content variables,
                                     (if cache_enabled (config m3)
                                      then cache_prompt m3 (now w1) cache_key content
                                             (effective_ttl prompt_config (config m3))
                                      else m3),
                                     w1))))))"

definition get_prompt ::
  "PromptManager \<Rightarrow> world \<Rightarrow> string \<Rightarrow> string option \<Rightarrow> (string \<times> string) list option
     \<Rightarrow> string option \<Rightarrow> (error + string option) \<times> PromptManager \<times> world" where
  "get_prompt m w n ver variables dflt =
     (case fetch m w n ver variables dflt of
        (Inr content, m1, w1) \<Rightarrow> (Inr content, m1, w1)
      | (Inl e, m1, w1) \<Rightarrow>
          if e = Unmodelled then (Inl e, m1, w1)
          else (case dflt of
                  Some d \<Rightarrow> (apply_variables (Some d) variables, m1, w1)
                | None \<Rightarrow> (Inl e, m1, w1)))"

definition register_prompt ::
  "PromptManager \<Rightarrow> string \<Rightarrow> string \<Rightarrow> SourceConfig option \<Rightarrow> int option \<Rightarrow> bool
     \<Rightarrow> error + PromptManager" where
  "register_prompt m n src sc ttl overwrite =
     (case register_from_dict (registry m) n src sc ttl overwrite of
        Inl e \<Rightarrow> Inl e
      | Inr reg \<Rightarrow> Inr (m\<lparr>registry := reg\<rparr>))"

definition clear_cache :: "PromptManager \<Rightarrow> PromptManager" where
  "clear_cache m = m\<lparr>cache := []\<rparr>"

section \<open>Results and scenarios\<close>


text \<open>
  A manager configuration with caching on and a default TTL of an hour and no API key, and
  the same with a key.  A world at time \<open>0\<close> in which the file \<^verbatim>\<open>greeting.txt\<close> holds
  \<^verbatim>\<open>Hello {name}!\<close>, \<^verbatim>\<open>numbered.txt\<close> holds \<^verbatim>\<open>Hi {0}\<close> and \<^verbatim>\<open>hi.txt\<close> holds \<^verbatim>\<open>Hi {x}\<close>; the request for prompt
  \<open>a\<close> is rate-limited twice and then answered, the request for \<open>b\<close> fails with a 404, the
  request for \<open>d\<close> fails with a rate-limit message that also holds the digits 404, the
  request for \<open>g\<close> is answered with \<^verbatim>\<open>Hi {x}\<close>, and every other request is rate-limited.  An
  OpenAI adapter with a key and \<open>n\<close> attempts, and one that leaves \<^verbatim>\<open>max_retries\<close> out of its
  configuration.  The source configuration that names the file.
\<close>

definition demo_config :: PromptManagerConfig where
  "demo_config = \<lparr>cache_enabled = True, default_cache_ttl = 3600, openai_api_key = None,
     openai_timeout = 30, openai_max_retries = 3, prompts_dir = None\<rparr>"

definition demo_world :: world where
  "demo_world = \<lparr>now = 0, HAS_OPENAI = True, client_error = False,
     responses_create = (\<lambda>k pid ver.
        if pid = ''a'' then (if k < 2 then Raises ''Rate limit exceeded'' else Extracts ''Hello'')
        else if pid = ''b'' then Raises ''Error code: 404''
        else if pid = ''d'' then Raises ''Rate limit reached: limit 40400''
        else if pid = ''g'' then Extracts ''Hi {x}''
        else Raises ''429 Too Many Requests''),
     api_calls = 0, sleeps = [],
     resolve_dir = (\<lambda>d. d), path_exists = (\<lambda>d. True), is_directory = (\<lambda>d. True),
     resolve_file_path = (\<lambda>base pid ver override. case override of Some p \<Rightarrow> p | None \<Rightarrow> pid),
     read_file = (\<lambda>p.
        if p = ''greeting.txt'' then File_text ''Hello {name}!''
        else if p = ''numbered.txt'' then File_text ''Hi {0}''
        else if p = ''hi.txt'' then File_text ''Hi {x}''
        else No_such_file)\<rparr>"

definition keyed_config :: PromptManagerConfig where
  "keyed_config = demo_config\<lparr>openai_api_key := Some ''sk-test''\<rparr>"

definition demo_source_default :: OpenAIPromptSource where
  "demo_source_default = \<lparr>api_key = Some ''sk-test'', timeout = 30, max_retries = None,
     openai_initialized = False, openai_cache = []\<rparr>"

definition demo_source :: "int \<Rightarrow> OpenAIPromptSource" where
  "demo_source n = \<lparr>api_key = Some ''sk-test'', timeout = 30, max_retries = Some n,
     openai_initialized = False, openai_cache = []\<rparr>"

definition greeting_file :: SourceConfig where
  "greeting_file = \<lparr>prompt_id = None, version = None, path = Some ''greeting.txt''\<rparr>"

section \<open>Registry: theorems\<close>

text \<open>\<open>lower_char\<close> is the ASCII lower case: it adds 32 to the codes 65 to 90 and keeps the rest.\<close>

lemma lower_char_ascii:
  "(of_char (lower_char c) :: nat) =
     (if 65 \<le> (of_char c :: nat) \<and> (of_char c :: nat) \<le> 90 then of_char c + 32 else of_char c)"
  by (cases c) (simp add: lower_char_def)

lemma lower_openai: "lower ''openai'' = ''openai''"
  by (simp add: lower_def lower_char_def)

lemma lower_local: "lower ''local'' = ''local''"
  by (simp add: lower_def lower_char_def)

lemma from_string_openai: "from_string ''openai'' = Inr OPENAI"
  by (simp add: from_string_def lower_openai)

lemma from_string_local: "from_string ''local'' = Inr LOCAL"
  by (simp add: from_string_def lower_local)

lemma live_sources_subset_in_use:
  assumes "live_sources reg \<subseteq> sources_in_use reg"
  shows "live_sources (run_op reg op) \<subseteq> sources_in_use (run_op reg op)"
proof (cases op)
  case (Register pc overwrite)
  have "set (map (source \<circ> snd) (AList.update k v ps)) \<subseteq> insert (source v) (set (map (source \<circ> snd) ps))"
    for k v and ps :: "(string \<times> PromptConfig) list"
    by (induction ps) auto
  with assms Register show ?thesis
    by (fastforce simp: register_def live_sources_def)
next
  case (Remove n)
  then show ?thesis
    using assms by (simp add: remove_def live_sources_def update_sources_in_use_def)
next
  case Clear
  then show ?thesis by (simp add: clear_def live_sources_def)
qed

text \<open>
  C4 (the code departs from the claim).  Register \<open>a\<close> with the local variant, then register
  \<open>a\<close> again with \<open>overwrite\<close> and the OpenAI variant: \<^verbatim>\<open>register\<close> only ever adds to
  \<^verbatim>\<open>_sources_in_use\<close>, so \<open>LOCAL\<close> stays in \<open>get_sources_in_use\<close> although the only
  registered configuration uses \<open>OPENAI\<close>.  The set is recomputed by \<^verbatim>\<open>remove\<close> alone.
\<close>

theorem C4_overwrite_keeps_stale_source:
  "get_sources_in_use (run_ops
      [Register \<lparr>name = ''a'', source = LOCAL, source_config = empty_source_config, cache_ttl = None\<rparr> False,
       Register \<lparr>name = ''a'', source = OPENAI, source_config = empty_source_config, cache_ttl = None\<rparr> True])
     = {LOCAL, OPENAI}
   \<and> live_sources (run_ops
      [Register \<lparr>name = ''a'', source = LOCAL, source_config = empty_source_config, cache_ttl = None\<rparr> False,
       Register \<lparr>name = ''a'', source = OPENAI, source_config = empty_source_config, cache_ttl = None\<rparr> True])
     = {OPENAI}"
  by (auto simp: run_ops_def new_registry_def register_def exists_def get_sources_in_use_def
      live_sources_def)


lemma register_duplicate:
  "exists reg (name pc) \<Longrightarrow> register reg pc False = Inl PromptAlreadyRegisteredError"
  by (simp add: register_def)

lemma register_overwrite_get:
  "register reg pc True = Inr reg' \<Longrightarrow> get reg' (name pc) = Inr pc"
  by (auto simp: register_def get_def update_conv')


section \<open>Evaluation of the scenarios\<close>

lemmas eval_defs =
  get_prompt_def fetch_def get_cached_def cache_prompt_def effective_ttl_def get_source_def
  new_adapter_def adapter_get_prompt_def local_get_prompt_def local_ensure_initialized_def
  local_initialize_def substitute_variables_def apply_variables_def format_def get_value_def
  is_digit_def openai_get_prompt_def openai_ensure_initialized_def openai_initialize_def
  configured_max_retries_def try_block_def quoted_def classify_def failure_def lower_def
  lower_char_def sleep_def nonempty_def or_latest_def register_prompt_def register_from_dict_def
  register_def exists_def get_def remove_def update_sources_in_use_def new_manager_def
  new_registry_def from_string_def empty_source_config_def demo_config_def demo_world_def
  demo_source_def demo_source_default_def keyed_config_def greeting_file_def Let_def
  sublist_code eval_nat_numeral

section \<open>Manager cache: theorems\<close>

lemma effective_ttl_zero:
  "effective_ttl (pc\<lparr>cache_ttl := Some 0\<rparr>) cfg = effective_ttl (pc\<lparr>cache_ttl := None\<rparr>) cfg"
  by (simp add: effective_ttl_def)

lemma get_cached_ignores_registry:
  "fst (get_cached (m\<lparr>registry := reg\<rparr>) t k) = fst (get_cached m t k)"
  by (simp add: get_cached_def split: option.split prod.split)

text \<open>
  C1 (the code departs from the claim).  A prompt is registered with \<^verbatim>\<open>cache_ttl=0\<close> under a
  manager whose caching is on with a default TTL of 3600.  \<^verbatim>\<open>get_prompt\<close> computes the TTL
  as \<^verbatim>\<open>prompt_config.cache_ttl or self.config.cache_ttl\<close>, and \<^verbatim>\<open>0\<close> is falsy, so the TTL
  is 3600 and the guard \<^verbatim>\<open>ttl == 0\<close> of \<^verbatim>\<open>_cache_prompt\<close> is not met: the content is
  stored.  A minute later the cache lookup hits, and a second \<^verbatim>\<open>get_prompt\<close> leaves the
  entry with its first timestamp, so it did not fetch again.
\<close>


theorem C1_zero_ttl_is_cached:
  "(case register_prompt (new_manager demo_config) ''greeting'' ''local'' (Some greeting_file) (Some 0) False of
      Inl e \<Rightarrow> False
    | Inr m \<Rightarrow>
        (case get_prompt m demo_world ''greeting'' None None None of
           (r, m1, w1) \<Rightarrow>
             r = Inr (Some ''Hello {name}!'')
             \<and> cache m1 = [(''greeting:latest'', Some ''Hello {name}!'', 0)]
             \<and> fst (get_cached m1 60 ''greeting:latest'') = Some ''Hello {name}!''
             \<and> cache (fst (snd (get_prompt m1 (w1\<lparr>now := 60\<rparr>) ''greeting'' None None None)))
                 = [(''greeting:latest'', Some ''Hello {name}!'', 0)]))"
  by (simp add: eval_defs)


text \<open>
  C2 (the code departs from the claim).  The manager passes the variables on to the
  adapter, and the local adapter substitutes them before it returns: for the file
  \<^verbatim>\<open>Hello {name}!\<close> and \<^verbatim>\<open>variables={"name": "World"}\<close> the manager's cache holds
  \<^verbatim>\<open>Hello World!\<close>, the text after substitution.  A later call with
  \<^verbatim>\<open>variables={"name": "Bob"}\<close> is served from that entry and returns \<^verbatim>\<open>Hello World!\<close>.
\<close>


theorem C2_cache_holds_substituted_text:
  "(case register_prompt (new_manager demo_config) ''greeting'' ''local'' (Some greeting_file) None False of
      Inl e \<Rightarrow> False
    | Inr m \<Rightarrow>
        (case get_prompt m demo_world ''greeting'' None (Some [(''name'', ''World'')]) None of
           (r, m1, w1) \<Rightarrow>
             read_file demo_world ''greeting.txt'' = File_text ''Hello {name}!''
             \<and> r = Inr (Some ''Hello World!'')
             \<and> cache m1 = [(''greeting:latest'', Some ''Hello World!'', 0)]
             \<and> fst (get_prompt m1 w1 ''greeting'' None (Some [(''name'', ''Bob'')]) None)
                 = Inr (Some ''Hello World!'')))"
  by (simp add: eval_defs)


text \<open>
  C3 (the code departs from the claim).  A prompt is registered with \<^verbatim>\<open>cache_ttl=10\<close> under
  a default TTL of 3600 and fetched at time 0, so its effective TTL is 10.  At time 100
  the entry is older than that, yet \<^verbatim>\<open>_get_cached\<close> returns it: the lookup compares the age
  with \<^verbatim>\<open>self.config.cache_ttl\<close> alone, and the TTL handed to \<^verbatim>\<open>_cache_prompt\<close> is not
  stored with the entry.  A second \<^verbatim>\<open>get_prompt\<close> at time 100 leaves the entry with its
  first timestamp.
\<close>


theorem C3_prompt_ttl_not_read:
  "(case register_prompt (new_manager demo_config) ''greeting'' ''local'' (Some greeting_file) (Some 10) False of
      Inl e \<Rightarrow> False
    | Inr m \<Rightarrow>
        (case get_prompt m demo_world ''greeting'' None None None of
           (r, m1, w1) \<Rightarrow>
             map_option (\<lambda>pc. effective_ttl pc (config m1)) (map_of (prompts (registry m1)) ''greeting'') = Some 10
             \<and> cache m1 = [(''greeting:latest'', Some ''Hello {name}!'', 0)]
             \<and> fst (get_cached m1 100 ''greeting:latest'') = Some ''Hello {name}!''
             \<and> cache (fst (snd (get_prompt m1 (w1\<lparr>now := 100\<rparr>) ''greeting'' None None None)))
                 = [(''greeting:latest'', Some ''Hello {name}!'', 0)]))"
  by (simp add: eval_defs)


section \<open>Registration through the manager: theorems\<close>

text \<open>
  C7 (the code departs from the claim).  \<^verbatim>\<open>register_from_dict\<close> wraps every exception of
  its \<^verbatim>\<open>try\<close> in \<^verbatim>\<open>ConfigurationError\<close>, the \<^verbatim>\<open>PromptAlreadyRegisteredError\<close> of
  \<^verbatim>\<open>register\<close> included: registering \<open>greeting\<close> a second time through
  \<^verbatim>\<open>PromptManager.register_prompt\<close> without \<open>overwrite\<close> raises \<^verbatim>\<open>ConfigurationError\<close>,
  which is not a \<^verbatim>\<open>PromptAlreadyRegisteredError\<close>.  \<^verbatim>\<open>PromptRegistry.register\<close> itself raises
  \<^verbatim>\<open>PromptAlreadyRegisteredError\<close> on the same input.
\<close>


theorem C7_register_prompt_wraps_error:
  "(case register_prompt (new_manager demo_config) ''greeting'' ''local'' (Some greeting_file) None False of
      Inl e \<Rightarrow> False
    | Inr m \<Rightarrow>
        (case register_prompt m ''greeting'' ''local'' (Some greeting_file) None False of
           Inl e \<Rightarrow> e = ConfigurationError \<and> \<not> isinstance e PromptAlreadyRegisteredError
         | Inr m1 \<Rightarrow> False)
        \<and> register (registry m)
             \<lparr>name = ''greeting'', source = LOCAL, source_config = greeting_file, cache_ttl = None\<rparr> False
            = Inl PromptAlreadyRegisteredError)"
  by (simp add: eval_defs isinstance_def)


section \<open>Unregistered names: theorems\<close>


lemma get_cached_frame:
  "registry (snd (get_cached m t k)) = registry m"
  "config (snd (get_cached m t k)) = config m"
  "sources (snd (get_cached m t k)) = sources m"
  by (simp_all add: get_cached_def split: option.split prod.split)

lemma get_unregistered: "\<not> exists reg n \<Longrightarrow> get reg n = Inl PromptNotRegisteredError"
proof -
  assume "\<not> exists reg n"
  then have "map_of (prompts reg) n = None"
    by (simp add: exists_def map_of_eq_None_iff)
  then show ?thesis by (simp add: get_def)
qed


text \<open>
  C8 as stated fails: the cache is read before the registry.  \<open>greeting\<close> is registered
  and fetched, so its content is cached, and then removed from the manager's registry.  The
  name is not registered any more, but \<^verbatim>\<open>get_prompt\<close> with the default \<open>D\<close> returns the cached
  content, not \<open>D\<close>, and \<^verbatim>\<open>get_prompt\<close> without a default returns it too instead of raising
  \<^verbatim>\<open>PromptNotRegisteredError\<close>.
\<close>


theorem C8_counterexample:
  "(case register_prompt (new_manager demo_config) ''greeting'' ''local'' (Some greeting_file) None False of
      Inl e \<Rightarrow> False
    | Inr m \<Rightarrow>
        (case get_prompt m demo_world ''greeting'' None None None of
           (r, m1, w1) \<Rightarrow>
             (case remove (registry m1) ''greeting'' of
                Inl e \<Rightarrow> False
              | Inr reg \<Rightarrow>
                  \<not> exists reg ''greeting''
                  \<and> fst (get_prompt (m1\<lparr>registry := reg\<rparr>) w1 ''greeting'' None None (Some ''D''))
                      = Inr (Some ''Hello {name}!'')
                  \<and> fst (get_prompt (m1\<lparr>registry := reg\<rparr>) w1 ''greeting'' None None None)
                      = Inr (Some ''Hello {name}!''))))"
  by (simp add: eval_defs)


text \<open>
  C8, amended.  For a name that is not in the registry and whose cache key
  \<^verbatim>\<open>name:version-or-latest\<close> has no valid entry in the manager's cache,
  \<^verbatim>\<open>get_prompt(name, default=D)\<close> returns \<open>D\<close> and raises nothing, and without a default
  \<^verbatim>\<open>get_prompt\<close> raises \<^verbatim>\<open>PromptNotRegisteredError\<close>.
\<close>


theorem C8_unregistered_default:
  assumes "\<not> exists (registry m) n"
    and "fst (get_cached m (now w) (n @ '':'' @ or_latest ver)) = None"
  shows "fst (get_prompt m w n ver None (Some d)) = Inr (Some d)
       \<and> fst (get_prompt m w n ver variables None) = Inl PromptNotRegisteredError"
proof -
  obtain m1 where g: "get_cached m (now w) (n @ '':'' @ or_latest ver) = (None, m1)"
    using assms(2) by (cases "get_cached m (now w) (n @ '':'' @ or_latest ver)") simp
  have "registry m1 = registry m"
    using get_cached_frame(1) [of m "now w" "n @ '':'' @ or_latest ver"] g by simp
  with get_unregistered [OF assms(1)] have r: "get (registry m1) n = Inl PromptNotRegisteredError"
    by simp
  have "fetch m w n ver vs dflt =
      (case dflt of Some d \<Rightarrow> (apply_variables (Some d) vs, m1, w)
       | None \<Rightarrow> (Inl PromptNotRegisteredError, m1, w))" for vs dflt
    using g r by (simp add: fetch_def Let_def)
  then show ?thesis
    by (simp add: get_prompt_def apply_variables_def)
qed


text \<open>
  The amended C8 on the fresh manager: nothing is registered and nothing is cached.
\<close>


theorem C8_witness:
  "\<not> exists (registry (new_manager demo_config)) ''missing''
   \<and> fst (get_cached (new_manager demo_config) (now demo_world) (''missing'' @ '':'' @ or_latest None)) = None
   \<and> fst (get_prompt (new_manager demo_config) demo_world ''missing'' None None (Some ''D'')) = Inr (Some ''D'')
   \<and> fst (get_prompt (new_manager demo_config) demo_world ''missing'' None None None)
        = Inl PromptNotRegisteredError"
proof -
  have a: "\<not> exists (registry (new_manager demo_config)) ''missing''"
    by (simp add: exists_def new_manager_def new_registry_def)
  have b: "fst (get_cached (new_manager demo_config) (now demo_world) (''missing'' @ '':'' @ or_latest None)) = None"
    by (simp add: get_cached_def new_manager_def)
  from a b C8_unregistered_default [OF a b, of "''D''" None] show ?thesis by simp
qed


section \<open>Missing API key: theorems\<close>

text \<open>
  C6 as stated fails.  \<open>ai\<close> is registered with the OpenAI source and the identifier \<open>abc\<close>,
  and no API key is configured.  The first \<^verbatim>\<open>get_prompt\<close> builds the adapter, and its
  \<^verbatim>\<open>initialize\<close> raises \<^verbatim>\<open>OpenAIConfigError\<close>, which is a \<^verbatim>\<open>ConfigurationError\<close> and not a
  \<^verbatim>\<open>SourceConnectionError\<close>.
\<close>


theorem C6_counterexample:
  "(case register_prompt (new_manager demo_config) ''ai'' ''openai''
           (Some \<lparr>prompt_id = Some ''abc'', version = None, path = None\<rparr>) None False of
      Inl e \<Rightarrow> False
    | Inr m \<Rightarrow>
        fst (get_prompt m demo_world ''ai'' None None None) = Inl OpenAIConfigError)
   \<and> \<not> isinstance OpenAIConfigError SourceConnectionError
   \<and> isinstance OpenAIConfigError ConfigurationError"
  by (simp add: eval_defs isinstance_def)


text \<open>
  C6, amended.  For a prompt registered with the OpenAI source, with no API key configured
  (absent or empty) and the \<^verbatim>\<open>openai\<close> library importable, the first \<^verbatim>\<open>get_prompt\<close> for
  that name (no adapter built yet, no valid cache entry, no default) raises
  \<^verbatim>\<open>OpenAIConfigError\<close>: a \<^verbatim>\<open>ConfigurationError\<close> and a \<^verbatim>\<open>SourceError\<close>, but not a
  \<^verbatim>\<open>SourceConnectionError\<close>.
\<close>


theorem C6_missing_api_key:
  assumes "get (registry m) n = Inr pc" and "source pc = OPENAI"
    and "nonempty (openai_api_key (config m)) = None"
    and "map_of (sources m) OPENAI = None"
    and "fst (get_cached m (now w) (n @ '':'' @ or_latest ver)) = None"
    and "HAS_OPENAI w"
  shows "fst (get_prompt m w n ver variables None) = Inl OpenAIConfigError
       \<and> isinstance OpenAIConfigError ConfigurationError
       \<and> isinstance OpenAIConfigError SourceError
       \<and> \<not> isinstance OpenAIConfigError SourceConnectionError"
proof -
  obtain m1 where g: "get_cached m (now w) (n @ '':'' @ or_latest ver) = (None, m1)"
    using assms(5) by (cases "get_cached m (now w) (n @ '':'' @ or_latest ver)") simp
  have frame: "registry m1 = registry m" "config m1 = config m" "sources m1 = sources m"
    using get_cached_frame [of m "now w" "n @ '':'' @ or_latest ver"] g by simp_all
  let ?a = "new_adapter (config m1) OPENAI"
  have src: "get_source m1 (source pc) = (?a, m1\<lparr>sources := AList.update OPENAI ?a (sources m1)\<rparr>)"
    using assms(2,4) frame by (simp add: get_source_def)
  have call: "adapter_get_prompt ?a w pid v p variables = (Inl OpenAIConfigError, ?a, w)" for pid v p
    using assms(3,6) frame
    by (simp add: adapter_get_prompt_def new_adapter_def openai_get_prompt_def
        openai_ensure_initialized_def openai_initialize_def)
  have "fst (fetch m w n ver variables None) = Inl OpenAIConfigError"
    using g assms(1) frame(1) src call by (simp add: fetch_def Let_def)
  then have "fst (get_prompt m w n ver variables None) = Inl OpenAIConfigError"
    by (cases "fetch m w n ver variables None") (simp add: get_prompt_def)
  then show ?thesis
    by (simp add: isinstance_def eval_nat_numeral)
qed


text \<open>The amended C6 on the manager that has registered \<open>ai\<close> and nothing else.\<close>


theorem C6_witness:
  "(case register_prompt (new_manager demo_config) ''ai'' ''openai''
           (Some \<lparr>prompt_id = Some ''abc'', version = None, path = None\<rparr>) None False of
      Inl e \<Rightarrow> False
    | Inr m \<Rightarrow>
        get (registry m) ''ai''
          = Inr \<lparr>name = ''ai'', source = OPENAI,
                 source_config = \<lparr>prompt_id = Some ''abc'', version = None, path = None\<rparr>,
                 cache_ttl = None\<rparr>
        \<and> nonempty (openai_api_key (config m)) = None
        \<and> map_of (sources m) OPENAI = None
        \<and> fst (get_cached m (now demo_world) (''ai'' @ '':'' @ or_latest None)) = None
        \<and> HAS_OPENAI demo_world
        \<and> fst (get_prompt m demo_world ''ai'' None None None) = Inl OpenAIConfigError)"
proof -
  define m where "m = (new_manager demo_config)\<lparr>registry :=
      \<lparr>prompts = [(''ai'', \<lparr>name = ''ai'', source = OPENAI,
                 source_config = \<lparr>prompt_id = Some ''abc'', version = None, path = None\<rparr>,
                 cache_ttl = None\<rparr>)], sources_in_use = {OPENAI}\<rparr>\<rparr>"
  have reg: "register_prompt (new_manager demo_config) ''ai'' ''openai''
           (Some \<lparr>prompt_id = Some ''abc'', version = None, path = None\<rparr>) None False = Inr m"
    by (simp add: m_def register_prompt_def register_from_dict_def register_def exists_def
        new_manager_def new_registry_def from_string_openai)
  have h1: "get (registry m) ''ai'' = Inr \<lparr>name = ''ai'', source = OPENAI,
                 source_config = \<lparr>prompt_id = Some ''abc'', version = None, path = None\<rparr>,
                 cache_ttl = None\<rparr>"
    by (simp add: m_def get_def)
  have h2: "source \<lparr>name = ''ai'', source = OPENAI,
                 source_config = \<lparr>prompt_id = Some ''abc'', version = None, path = None\<rparr>,
                 cache_ttl = None\<rparr> = OPENAI" by simp
  have h3: "nonempty (openai_api_key (config m)) = None"
    by (simp add: m_def new_manager_def demo_config_def nonempty_def)
  have h4: "map_of (sources m) OPENAI = None"
    by (simp add: m_def new_manager_def)
  have h5: "fst (get_cached m (now demo_world) (''ai'' @ '':'' @ or_latest None)) = None"
    by (simp add: m_def new_manager_def get_cached_def)
  have h6: "HAS_OPENAI demo_world" by (simp add: demo_world_def)
  from C6_missing_api_key [OF h1 h2 h3 h4 h5 h6, of None] h1 h3 h4 h5 h6 reg
  show ?thesis by simp
qed


section \<open>Variable substitution: theorems\<close>












section \<open>OpenAI retry loop: theorems\<close>


lemma sleep_fields [simp]:
  "responses_create (sleep k w) = responses_create w"
  "api_calls (sleep k w) = api_calls w"
  "sleeps (sleep k w) = sleeps w @ [k]"
  by (simp_all add: sleep_def)

lemma retry_rate_limited:
  assumes "\<forall>i<k. failure pid (responses_create w (api_calls w + i) pid (nonempty ver)) = Some Rate_limit"
    and "int n + int k < mr"
  shows "\<exists>w'. retry (k + remaining) n mr pid ver src w = retry remaining (n + k) mr pid ver src w'
           \<and> responses_create w' = responses_create w
           \<and> api_calls w' = api_calls w + k
           \<and> sleeps w' = sleeps w @ map (\<lambda>i. 2 ^ i) [n..<n + k]"
  using assms
proof (induction k arbitrary: n w)
  case 0
  show ?case by (intro exI [of _ w]) simp
next
  case (Suc k)
  let ?w1 = "sleep (2 ^ n) (w\<lparr>api_calls := Suc (api_calls w)\<rparr>)"
  from Suc.prems(1) have first: "failure pid (responses_create w (api_calls w) pid (nonempty ver)) = Some Rate_limit"
    by force
  from Suc.prems(2) have lt: "int n < mr - 1" by simp
  have step: "retry (Suc k + remaining) n mr pid ver src w = retry (k + remaining) (Suc n) mr pid ver src ?w1"
    using first lt by (auto simp: failure_def Let_def split: sum.splits)
  have rest: "\<forall>i<k. failure pid (responses_create ?w1 (api_calls ?w1 + i) pid (nonempty ver)) = Some Rate_limit"
    using Suc.prems(1) by auto
  have "int (Suc n) + int k < mr" using Suc.prems(2) by simp
  from Suc.IH [OF rest this] obtain w' where
    w': "retry (k + remaining) (Suc n) mr pid ver src ?w1 = retry remaining (Suc n + k) mr pid ver src w'"
      "responses_create w' = responses_create ?w1" "api_calls w' = api_calls ?w1 + k"
      "sleeps w' = sleeps ?w1 @ map (\<lambda>i. 2 ^ i) [Suc n..<Suc n + k]"
    by blast
  have "[n..<n + Suc k] = n # [Suc n..<Suc n + k]"
    by (simp add: upt_rec)
  with step w' show ?case
    by (intro exI [of _ w']) simp
qed


lemma openai_get_prompt_uncached:
  assumes "openai_ensure_initialized src w = Inr src'"
    and "map_of (openai_cache src') (pid @ '':'' @ or_latest ver) = None"
  shows "openai_get_prompt src w pid ver =
     retry (nat (configured_max_retries src)) 0 (configured_max_retries src) pid ver src' w"
proof -
  from assms(1) have "max_retries src' = max_retries src"
    by (auto simp: openai_ensure_initialized_def split: if_splits sum.splits)
  then have "configured_max_retries src' = configured_max_retries src"
    by (simp add: configured_max_retries_def)
  with assms show ?thesis
    by (simp add: openai_get_prompt_def)
qed


lemma openai_retry_by_class:
  assumes "openai_ensure_initialized src w = Inr src'"
    and "map_of (openai_cache src') (pid @ '':'' @ or_latest ver) = None"
    and "k < nat (configured_max_retries src)"
    and "\<forall>i<k. failure pid (responses_create w (api_calls w + i) pid (nonempty ver)) = Some Rate_limit"
  shows "(\<forall>text. try_block pid (responses_create w (api_calls w + k) pid (nonempty ver)) = Inr text \<longrightarrow>
            fst (openai_get_prompt src w pid ver) = Inr (Some text))
       \<and> (failure pid (responses_create w (api_calls w + k) pid (nonempty ver)) = Some Not_found \<longrightarrow>
            fst (openai_get_prompt src w pid ver) = Inl PromptNotFoundError)
       \<and> (failure pid (responses_create w (api_calls w + k) pid (nonempty ver)) = Some Rate_limit
            \<and> Suc k = nat (configured_max_retries src) \<longrightarrow>
            fst (openai_get_prompt src w pid ver) = Inl OpenAIRateLimitError)
       \<and> (failure pid (responses_create w (api_calls w + k) pid (nonempty ver)) = None
            \<or> failure pid (responses_create w (api_calls w + k) pid (nonempty ver)) = Some Not_found
            \<or> failure pid (responses_create w (api_calls w + k) pid (nonempty ver)) = Some Rate_limit
               \<and> Suc k = nat (configured_max_retries src) \<longrightarrow>
            api_calls (snd (snd (openai_get_prompt src w pid ver))) = api_calls w + Suc k
            \<and> sleeps (snd (snd (openai_get_prompt src w pid ver))) = sleeps w @ map (\<lambda>i. 2 ^ i) [0..<k])"
proof -
  let ?mr = "configured_max_retries src"
  from assms(3) obtain remaining where rem: "nat ?mr = k + Suc remaining"
    by (metis add_Suc_right less_imp_Suc_add)
  from assms(3) have "int 0 + int k < ?mr" by simp
  from retry_rate_limited [OF assms(4) this, of "Suc remaining" src'] obtain w' where
    w': "retry (k + Suc remaining) 0 ?mr pid ver src' w = retry (Suc remaining) (0 + k) ?mr pid ver src' w'"
      "responses_create w' = responses_create w" "api_calls w' = api_calls w + k"
      "sleeps w' = sleeps w @ map (\<lambda>i. 2 ^ i) [0..<0 + k]"
    by blast
  have run: "openai_get_prompt src w pid ver = retry (Suc remaining) k ?mr pid ver src' w'"
    using openai_get_prompt_uncached [OF assms(1,2)] rem w'(1) by simp
  have last: "\<not> int k < ?mr - 1" if "Suc k = nat ?mr"
    using that by linarith
  show ?thesis
    unfolding run using w'(2-4) last
    by (auto simp: failure_def Let_def split: sum.splits failure_class.splits)
qed


lemma demo_source_ready:
  "openai_ensure_initialized (demo_source n) demo_world = Inr ((demo_source n)\<lparr>openai_initialized := True\<rparr>)"
  by (simp add: openai_ensure_initialized_def openai_initialize_def demo_source_def demo_world_def
      nonempty_def)

lemma demo_source_uncached:
  "map_of (openai_cache ((demo_source n)\<lparr>openai_initialized := True\<rparr>)) (pid @ '':'' @ or_latest None) = None"
  by (simp add: demo_source_def)

lemma classify_rate_limit:
  assumes "sublist ''rate limit'' (lower msg) \<or> sublist ''too many requests'' (lower msg)"
    and "\<not> sublist ''not found'' (lower msg)" and "\<not> sublist ''404'' (lower msg)"
  shows "classify msg = Rate_limit"
  using assms by (simp add: classify_def Let_def)

lemma classify_not_found:
  assumes "sublist ''not found'' (lower msg) \<or> sublist ''404'' (lower msg)"
  shows "classify msg = Not_found"
  using assms by (simp add: classify_def Let_def)

lemma failure_Raises: "failure pid (Raises msg) = Some (classify msg)"
  by (simp add: failure_def try_block_def)

lemma try_block_Extracts: "reply \<noteq> [] \<Longrightarrow> try_block pid (Extracts reply) = Inr reply"
  by (simp add: try_block_def)

text \<open>
  C5 as stated fails: the handler tests for not-found before it tests for rate-limit.  The
  message \<^verbatim>\<open>Rate limit reached: limit 40400\<close> contains \<^verbatim>\<open>rate limit\<close>, and it contains
  \<^verbatim>\<open>404\<close>: with three attempts configured the adapter makes one request, does not sleep
  and raises \<^verbatim>\<open>PromptNotFoundError\<close>.
\<close>

theorem C5_counterexample:
  "responses_create demo_world 0 ''d'' None = Raises ''Rate limit reached: limit 40400''
   \<and> sublist ''rate limit'' (lower ''Rate limit reached: limit 40400'')
   \<and> max_retries (demo_source 3) = Some 3
   \<and> fst (openai_get_prompt (demo_source 3) demo_world ''d'' None) = Inl PromptNotFoundError
   \<and> api_calls (snd (snd (openai_get_prompt (demo_source 3) demo_world ''d'' None))) = 1
   \<and> sleeps (snd (snd (openai_get_prompt (demo_source 3) demo_world ''d'' None))) = []"
  by (simp add: eval_defs)

text \<open>
  C5, amended.  The adapter is initialised (or initialises now), the identifier is not in
  its cache, and \<open>mr\<close> is the configured \<^verbatim>\<open>max_retries\<close> (3 when the configuration leaves it
  out).  The first \<open>k\<close> requests, \<open>k\<close> below \<open>mr\<close>, raise with a message whose lower case
  contains \<^verbatim>\<open>rate limit\<close> or \<^verbatim>\<open>too many requests\<close> and neither \<^verbatim>\<open>not found\<close> nor \<^verbatim>\<open>404\<close>.
  Then: if request \<open>k\<close> gives a non-empty text, that text is returned; if it raises with a
  message that contains \<^verbatim>\<open>not found\<close> or \<^verbatim>\<open>404\<close>, \<^verbatim>\<open>PromptNotFoundError\<close> is raised; if it
  raises with a rate-limit message again and is the last attempt (\<open>k = mr - 1\<close>),
  \<^verbatim>\<open>OpenAIRateLimitError\<close> is raised.  In each case exactly \<open>k + 1\<close> requests were made (none
  after the deciding one) and the sleeps were 1, 2, 4, ... seconds (two to the power of the
  attempt number), one after each of the \<open>k\<close> rate-limited attempts that were retried.
\<close>

theorem C5_retry_by_message:
  assumes "openai_ensure_initialized src w = Inr src'"
    and "map_of (openai_cache src') (pid @ '':'' @ or_latest ver) = None"
    and "mr = (case max_retries src of None \<Rightarrow> 3 | Some n \<Rightarrow> n)"
    and "k < nat mr"
    and "\<forall>i<k. \<exists>msg. responses_create w (api_calls w + i) pid (nonempty ver) = Raises msg
           \<and> (sublist ''rate limit'' (lower msg) \<or> sublist ''too many requests'' (lower msg))
           \<and> \<not> sublist ''not found'' (lower msg) \<and> \<not> sublist ''404'' (lower msg)"
  shows "(\<forall>reply. responses_create w (api_calls w + k) pid (nonempty ver) = Extracts reply \<and> reply \<noteq> [] \<longrightarrow>
            fst (openai_get_prompt src w pid ver) = Inr (Some reply)
            \<and> api_calls (snd (snd (openai_get_prompt src w pid ver))) = api_calls w + Suc k
            \<and> sleeps (snd (snd (openai_get_prompt src w pid ver))) = sleeps w @ map (\<lambda>i. 2 ^ i) [0..<k])
       \<and> (\<forall>msg. responses_create w (api_calls w + k) pid (nonempty ver) = Raises msg
             \<and> (sublist ''not found'' (lower msg) \<or> sublist ''404'' (lower msg)) \<longrightarrow>
            fst (openai_get_prompt src w pid ver) = Inl PromptNotFoundError
            \<and> api_calls (snd (snd (openai_get_prompt src w pid ver))) = api_calls w + Suc k
            \<and> sleeps (snd (snd (openai_get_prompt src w pid ver))) = sleeps w @ map (\<lambda>i. 2 ^ i) [0..<k])
       \<and> (\<forall>msg. responses_create w (api_calls w + k) pid (nonempty ver) = Raises msg
             \<and> (sublist ''rate limit'' (lower msg) \<or> sublist ''too many requests'' (lower msg))
             \<and> \<not> sublist ''not found'' (lower msg) \<and> \<not> sublist ''404'' (lower msg)
             \<and> int k = mr - 1 \<longrightarrow>
            fst (openai_get_prompt src w pid ver) = Inl OpenAIRateLimitError
            \<and> api_calls (snd (snd (openai_get_prompt src w pid ver))) = api_calls w + Suc k
            \<and> sleeps (snd (snd (openai_get_prompt src w pid ver))) = sleeps w @ map (\<lambda>i. 2 ^ i) [0..<k])"
proof -
  have mr: "configured_max_retries src = mr"
    using assms(3) by (simp add: configured_max_retries_def)
  have budget: "k < nat (configured_max_retries src)"
    using assms(4) mr by simp
  have limited: "\<forall>i<k. failure pid (responses_create w (api_calls w + i) pid (nonempty ver)) = Some Rate_limit"
  proof (intro allI impI)
    fix i assume "i < k"
    with assms(5) obtain msg where
      "responses_create w (api_calls w + i) pid (nonempty ver) = Raises msg"
      "sublist ''rate limit'' (lower msg) \<or> sublist ''too many requests'' (lower msg)"
      "\<not> sublist ''not found'' (lower msg)" "\<not> sublist ''404'' (lower msg)"
      by blast
    then show "failure pid (responses_create w (api_calls w + i) pid (nonempty ver)) = Some Rate_limit"
      by (simp add: failure_Raises classify_rate_limit)
  qed
  note by_class = openai_retry_by_class [OF assms(1,2) budget limited]
  have last: "Suc k = nat (configured_max_retries src)" if "int k = mr - 1"
    using that mr by simp
  show ?thesis
  proof (intro conjI allI impI)
    fix reply
    assume a: "responses_create w (api_calls w + k) pid (nonempty ver) = Extracts reply \<and> reply \<noteq> []"
    then have t: "try_block pid (responses_create w (api_calls w + k) pid (nonempty ver)) = Inr reply"
      by (simp add: try_block_Extracts)
    then have f: "failure pid (responses_create w (api_calls w + k) pid (nonempty ver)) = None"
      by (simp add: failure_def)
    from by_class t show "fst (openai_get_prompt src w pid ver) = Inr (Some reply)" by blast
    from by_class f show "api_calls (snd (snd (openai_get_prompt src w pid ver))) = api_calls w + Suc k"
      by blast
    from by_class f show "sleeps (snd (snd (openai_get_prompt src w pid ver))) = sleeps w @ map (\<lambda>i. 2 ^ i) [0..<k]"
      by blast
  next
    fix msg
    assume a: "responses_create w (api_calls w + k) pid (nonempty ver) = Raises msg
             \<and> (sublist ''not found'' (lower msg) \<or> sublist ''404'' (lower msg))"
    then have f: "failure pid (responses_create w (api_calls w + k) pid (nonempty ver)) = Some Not_found"
      by (simp add: failure_Raises classify_not_found)
    from by_class f show "fst (openai_get_prompt src w pid ver) = Inl PromptNotFoundError" by blast
    from by_class f show "api_calls (snd (snd (openai_get_prompt src w pid ver))) = api_calls w + Suc k"
      by blast
    from by_class f show "sleeps (snd (snd (openai_get_prompt src w pid ver))) = sleeps w @ map (\<lambda>i. 2 ^ i) [0..<k]"
      by blast
  next
    fix msg
    assume a: "responses_create w (api_calls w + k) pid (nonempty ver) = Raises msg
             \<and> (sublist ''rate limit'' (lower msg) \<or> sublist ''too many requests'' (lower msg))
             \<and> \<not> sublist ''not found'' (lower msg) \<and> \<not> sublist ''404'' (lower msg)
             \<and> int k = mr - 1"
    then have f: "failure pid (responses_create w (api_calls w + k) pid (nonempty ver)) = Some Rate_limit"
      by (simp add: failure_Raises classify_rate_limit)
    from a last have l: "Suc k = nat (configured_max_retries src)" by blast
    from by_class f l show "fst (openai_get_prompt src w pid ver) = Inl OpenAIRateLimitError" by blast
    from by_class f l show "api_calls (snd (snd (openai_get_prompt src w pid ver))) = api_calls w + Suc k"
      by blast
    from by_class f l show "sleeps (snd (snd (openai_get_prompt src w pid ver))) = sleeps w @ map (\<lambda>i. 2 ^ i) [0..<k]"
      by blast
  qed
qed

lemma demo_default_ready:
  "openai_ensure_initialized demo_source_default demo_world = Inr (demo_source_default\<lparr>openai_initialized := True\<rparr>)"
  by (simp add: openai_ensure_initialized_def openai_initialize_def demo_source_default_def
      demo_world_def nonempty_def)

lemma demo_default_uncached:
  "map_of (openai_cache (demo_source_default\<lparr>openai_initialized := True\<rparr>)) (pid @ '':'' @ or_latest None) = None"
  by (simp add: demo_source_default_def)

lemma demo_messages:
  "lower ''Rate limit exceeded'' = ''rate limit exceeded''"
  "lower ''Error code: 404'' = ''error code: 404''"
  "lower ''429 Too Many Requests'' = ''429 too many requests''"
  "lower ''Rate limit reached: limit 40400'' = ''rate limit reached: limit 40400''"
  by (simp_all add: lower_def lower_char_def)

text \<open>
  The amended C5 on four runs: a budget of three with two rate-limit failures and then a
  text (sleeps of 1 and 2 seconds, three requests); a 404 on the first attempt (no sleep,
  one request); a budget of two with two rate-limit failures (one sleep of 1 second, two
  requests, then \<^verbatim>\<open>OpenAIRateLimitError\<close>); and the default budget of three with three
  rate-limit failures (sleeps of 1 and 2 seconds, three requests).
\<close>

theorem C5_witness:
  "fst (openai_get_prompt (demo_source 3) demo_world ''a'' None) = Inr (Some ''Hello'')
   \<and> sleeps (snd (snd (openai_get_prompt (demo_source 3) demo_world ''a'' None))) = [1, 2]
   \<and> api_calls (snd (snd (openai_get_prompt (demo_source 3) demo_world ''a'' None))) = 3
   \<and> fst (openai_get_prompt (demo_source 3) demo_world ''b'' None) = Inl PromptNotFoundError
   \<and> sleeps (snd (snd (openai_get_prompt (demo_source 3) demo_world ''b'' None))) = []
   \<and> api_calls (snd (snd (openai_get_prompt (demo_source 3) demo_world ''b'' None))) = 1
   \<and> fst (openai_get_prompt (demo_source 2) demo_world ''c'' None) = Inl OpenAIRateLimitError
   \<and> sleeps (snd (snd (openai_get_prompt (demo_source 2) demo_world ''c'' None))) = [1]
   \<and> api_calls (snd (snd (openai_get_prompt (demo_source 2) demo_world ''c'' None))) = 2
   \<and> fst (openai_get_prompt demo_source_default demo_world ''c'' None) = Inl OpenAIRateLimitError
   \<and> sleeps (snd (snd (openai_get_prompt demo_source_default demo_world ''c'' None))) = [1, 2]
   \<and> api_calls (snd (snd (openai_get_prompt demo_source_default demo_world ''c'' None))) = 3"
proof -
  have rc: "responses_create demo_world i ''a'' v = (if i < 2 then Raises ''Rate limit exceeded'' else Extracts ''Hello'')"
    "responses_create demo_world i ''b'' v = Raises ''Error code: 404''"
    "responses_create demo_world i ''c'' v = Raises ''429 Too Many Requests''" for i v
    by (simp_all add: demo_world_def)
  have w0: "api_calls demo_world = 0" "sleeps demo_world = []"
    by (simp_all add: demo_world_def)
  have upt: "map (\<lambda>i. 2 ^ i) [0..<2] = [1, 2::nat]" "map (\<lambda>i. 2 ^ i) [0..<1] = [1::nat]"
    by (simp_all add: upt_rec)
  have mr: "n = (case max_retries (demo_source n) of None \<Rightarrow> 3 | Some n \<Rightarrow> n)" for n
    by (simp add: demo_source_def)
  have mr_default: "3 = (case max_retries demo_source_default of None \<Rightarrow> 3 | Some n \<Rightarrow> n)"
    by (simp add: demo_source_default_def)
  have a: "\<forall>i<2. \<exists>msg. responses_create demo_world (api_calls demo_world + i) ''a'' (nonempty None) = Raises msg
           \<and> (sublist ''rate limit'' (lower msg) \<or> sublist ''too many requests'' (lower msg))
           \<and> \<not> sublist ''not found'' (lower msg) \<and> \<not> sublist ''404'' (lower msg)"
    by (simp add: rc w0 demo_messages sublist_code)
  have b: "\<forall>i<0. \<exists>msg. responses_create demo_world (api_calls demo_world + i) ''b'' (nonempty None) = Raises msg
           \<and> (sublist ''rate limit'' (lower msg) \<or> sublist ''too many requests'' (lower msg))
           \<and> \<not> sublist ''not found'' (lower msg) \<and> \<not> sublist ''404'' (lower msg)"
    by simp
  have c: "\<forall>i<k. \<exists>msg. responses_create demo_world (api_calls demo_world + i) ''c'' (nonempty None) = Raises msg
           \<and> (sublist ''rate limit'' (lower msg) \<or> sublist ''too many requests'' (lower msg))
           \<and> \<not> sublist ''not found'' (lower msg) \<and> \<not> sublist ''404'' (lower msg)" for k
    by (simp add: rc demo_messages sublist_code)
  have last_a: "responses_create demo_world (api_calls demo_world + 2) ''a'' (nonempty None) = Extracts ''Hello''"
    by (simp add: rc w0)
  have last_b: "responses_create demo_world (api_calls demo_world + 0) ''b'' (nonempty None) = Raises ''Error code: 404''"
    "sublist ''404'' (lower ''Error code: 404'')"
    by (simp_all add: rc demo_messages sublist_code)
  have last_c: "responses_create demo_world (api_calls demo_world + k) ''c'' (nonempty None) = Raises ''429 Too Many Requests''" for k
    by (simp add: rc)
  have msg_c: "sublist ''too many requests'' (lower ''429 Too Many Requests'')"
    "\<not> sublist ''not found'' (lower ''429 Too Many Requests'')"
    "\<not> sublist ''404'' (lower ''429 Too Many Requests'')"
    by (simp_all add: demo_messages sublist_code)
  from C5_retry_by_message [OF demo_source_ready demo_source_uncached mr [of 3] _ a]
    C5_retry_by_message [OF demo_source_ready demo_source_uncached mr [of 3] _ b]
    C5_retry_by_message [OF demo_source_ready demo_source_uncached mr [of 2] _ c [of 1]]
    C5_retry_by_message [OF demo_default_ready demo_default_uncached mr_default _ c [of 2]]
    last_a last_b last_c [of 1] last_c [of 2] msg_c
  show ?thesis
    by (simp add: w0 upt)
qed








end
